theory Spec2Isabelle
  imports Complex_Main "HOL-Library.Word"
begin

unbundle bit_operations_syntax

section \<open>Python values and exceptions\<close>

text \<open>
  The module \<^verbatim>\<open>innstereo/layer_types.py\<close> is dynamically typed: an attribute of a
  layer holds whatever object the caller handed to the setter. The values that occur
  in the module and in the claims are modelled by one datatype. A Python \<^verbatim>\<open>float\<close>
  is represented by the real number it denotes (no arithmetic is done on stored
  floats by this module); \<open>PyObj\<close> is a reference to an object of the toolkit
  (a TreeStore, a TreeView), identified by its address.
\<close>

datatype pyval =
    PyNone
  | PyBool bool
  | PyInt int
  | PyFloat real
  | PyStr string
  | PyObj nat

datatype pyerr = TypeError | ValueError | OverflowError | AttributeError

text \<open>
  Python's \<^verbatim>\<open>==\<close> on these values: \<^verbatim>\<open>bool\<close>, \<^verbatim>\<open>int\<close> and \<^verbatim>\<open>float\<close> compare
  by their numeric value (\<^verbatim>\<open>8.0 == 8\<close>, \<^verbatim>\<open>True == 1\<close>), strings by their
  characters, toolkit objects by identity.
\<close>

definition py_number :: "pyval \<Rightarrow> real option" where
  "py_number x =
     (case x of
        PyBool b \<Rightarrow> Some (if b then 1 else 0)
      | PyInt i \<Rightarrow> Some (real_of_int i)
      | PyFloat r \<Rightarrow> Some r
      | _ \<Rightarrow> None)"

definition py_eq :: "pyval \<Rightarrow> pyval \<Rightarrow> bool" where
  "py_eq x y =
     (case (py_number x, py_number y) of
        (Some a, Some b) \<Rightarrow> a = b
      | (None, None) \<Rightarrow> x = y
      | _ \<Rightarrow> False)"

section \<open>The layer classes\<close>

text \<open>
  The four classes of the module. \<open>cls\<close> below is the class of an instance
  (what Python's \<^verbatim>\<open>type(self)\<close> returns); it decides which \<^verbatim>\<open>get_pixbuf\<close> runs.
  It is not the attribute \<^verbatim>\<open>self.type\<close>, which is an ordinary string attribute.
\<close>

datatype layer_class = PlaneLayer | FaultPlaneLayer | LineLayer | SmallCircleLayer

text \<open>
  One field per instance attribute assigned in \<^verbatim>\<open>PlaneLayer.__init__\<close>, in the
  order of the source. The attribute \<^verbatim>\<open>type\<close> is the field \<open>type\<close>.
\<close>

record layer =
  cls :: layer_class
  data_treestore :: pyval
  data_treeview :: pyval
  type :: pyval
  label :: pyval
  render_gcircles :: pyval
  line_color :: pyval
  line_width :: pyval
  line_style :: pyval
  line_alpha :: pyval
  capstyle :: pyval
  render_poles :: pyval
  pole_style :: pyval
  pole_size :: pyval
  pole_fill :: pyval
  pole_edge_color :: pyval
  pole_edge_width :: pyval
  pole_alpha :: pyval
  render_linears :: pyval
  marker_style :: pyval
  marker_size :: pyval
  marker_fill :: pyval
  marker_edge_color :: pyval
  marker_edge_width :: pyval
  marker_alpha :: pyval
  rose_spacing :: pyval
  rose_bottom :: pyval
  draw_hoeppener :: pyval
  draw_lp_plane :: pyval
  draw_contour_fills :: pyval
  draw_contour_lines :: pyval
  draw_contour_labels :: pyval
  render_plane_contours :: pyval
  render_line_contours :: pyval
  colormap :: pyval
  contour_resolution :: pyval
  contour_method :: pyval
  contour_sigma :: pyval
  contour_line_color :: pyval
  contour_use_line_color :: pyval
  contour_line_width :: pyval
  contour_line_style :: pyval
  contour_label_size :: pyval

text \<open>
  \<^verbatim>\<open>PlaneLayer.__init__(self, treestore, treeview)\<close>. The subclasses call it on
  their own instances, so the class of the object being initialised is an argument.
\<close>

definition PlaneLayer_init :: "layer_class \<Rightarrow> pyval \<Rightarrow> pyval \<Rightarrow> layer" where
  "PlaneLayer_init c treestore treeview = \<lparr>
     cls = c,
     data_treestore = treestore,
     data_treeview = treeview,
     type = PyStr ''plane'',
     label = PyStr ''Plane layer'',
     render_gcircles = PyBool True,
     line_color = PyStr ''#0000ff'',
     line_width = PyFloat 1.0,
     line_style = PyStr ''-'',
     line_alpha = PyFloat 1.0,
     capstyle = PyStr ''butt'',
     render_poles = PyBool False,
     pole_style = PyStr ''o'',
     pole_size = PyFloat 8.0,
     pole_fill = PyStr ''#ff7e00'',
     pole_edge_color = PyStr ''#000000'',
     pole_edge_width = PyFloat 1.0,
     pole_alpha = PyFloat 1.0,
     render_linears = PyBool True,
     marker_style = PyStr ''o'',
     marker_size = PyFloat 8.0,
     marker_fill = PyStr ''#1283eb'',
     marker_edge_color = PyStr ''#000000'',
     marker_edge_width = PyFloat 1.0,
     marker_alpha = PyFloat 1.0,
     rose_spacing = PyInt 10,
     rose_bottom = PyInt 0,
     draw_hoeppener = PyBool False,
     draw_lp_plane = PyBool False,
     draw_contour_fills = PyBool False,
     draw_contour_lines = PyBool False,
     draw_contour_labels = PyBool False,
     render_plane_contours = PyBool False,
     render_line_contours = PyBool True,
     colormap = PyStr ''Blues'',
     contour_resolution = PyInt 40,
     contour_method = PyStr ''exponential_kamb'',
     contour_sigma = PyInt 2,
     contour_line_color = PyStr ''#000000'',
     contour_use_line_color = PyBool True,
     contour_line_width = PyInt 1,
     contour_line_style = PyStr ''-'',
     contour_label_size = PyInt 12 \<rparr>"

definition FaultPlaneLayer_init :: "pyval \<Rightarrow> pyval \<Rightarrow> layer" where
  "FaultPlaneLayer_init treestore treeview =
     (PlaneLayer_init FaultPlaneLayer treestore treeview)
       \<lparr> type := PyStr ''faultplane'', label := PyStr ''Faultplane layer'' \<rparr>"

definition LineLayer_init :: "pyval \<Rightarrow> pyval \<Rightarrow> layer" where
  "LineLayer_init treestore treeview =
     (PlaneLayer_init LineLayer treestore treeview)
       \<lparr> type := PyStr ''line'', label := PyStr ''Linear layer'' \<rparr>"

definition SmallCircleLayer_init :: "pyval \<Rightarrow> pyval \<Rightarrow> layer" where
  "SmallCircleLayer_init treestore treeview =
     (PlaneLayer_init SmallCircleLayer treestore treeview)
       \<lparr> type := PyStr ''smallcircle'', label := PyStr ''Small circle layer'' \<rparr>"

section \<open>Python built-ins used by the module\<close>

text \<open>
  Strings are lists of 8-bit characters (code points below 256; a Python string
  with a code point beyond them has no counterpart here). \<^verbatim>\<open>x[1:]\<close> on a string
  drops the first
  character (and is the empty string on the empty string); on \<^verbatim>\<open>None\<close>, a number
  or an opaque toolkit object it raises \<^verbatim>\<open>TypeError\<close>.
\<close>

definition slice_from_1 :: "pyval \<Rightarrow> pyerr + string" where
  "slice_from_1 x = (case x of PyStr s \<Rightarrow> Inr (drop 1 s) | _ \<Rightarrow> Inl TypeError)"

text \<open>\<^verbatim>\<open>"0x{0}ff".format(s)\<close> for a string \<open>s\<close>.\<close>

definition format_0x_ff :: "string \<Rightarrow> string" where
  "format_0x_ff s = ''0x'' @ s @ ''ff''"

text \<open>
  \<^verbatim>\<open>int(s, base=16)\<close> of CPython 3.6 and later: surrounding whitespace is
  skipped, then an optional sign, an optional prefix \<^verbatim>\<open>0x\<close> or \<^verbatim>\<open>0X\<close> (which one
  underscore may follow), then hexadecimal digits, where single underscores may stand
  between digits. Anything else raises \<^verbatim>\<open>ValueError\<close>.
\<close>

definition py_isspace :: "char \<Rightarrow> bool" where
  "py_isspace c = (of_char c \<in> {9, 10, 11, 12, 13, 32, 133, 160 :: nat})"

definition digit_value :: "char \<Rightarrow> nat option" where
  "digit_value c =
     (let n = (of_char c :: nat) in
      if 48 \<le> n \<and> n \<le> 57 then Some (n - 48)
      else if 97 \<le> n \<and> n \<le> 102 then Some (n - 87)
      else if 65 \<le> n \<and> n \<le> 70 then Some (n - 55)
      else None)"

text \<open>
  The digit loop: the flag says that the previous character was an underscore; the
  result is the value read, the number of digits and the rest of the input.
\<close>

fun long_from_binary_base :: "bool \<Rightarrow> int \<Rightarrow> nat \<Rightarrow> string \<Rightarrow> (int \<times> nat \<times> string) option" where
  "long_from_binary_base prev acc n [] = (if prev then None else Some (acc, n, []))"
| "long_from_binary_base prev acc n (c # cs) =
     (if c = CHR ''_'' then (if prev then None else long_from_binary_base True acc n cs)
      else (case digit_value c of
              Some d \<Rightarrow> long_from_binary_base False (16 * acc + int d) (Suc n) cs
            | None \<Rightarrow> (if prev then None else Some (acc, n, c # cs))))"

definition strip_sign :: "string \<Rightarrow> int \<times> string" where
  "strip_sign s =
     (case s of
        [] \<Rightarrow> (1, s)
      | c # r \<Rightarrow> if c = CHR ''+'' then (1, r) else if c = CHR ''-'' then (- 1, r) else (1, s))"

definition strip_0x :: "string \<Rightarrow> string" where
  "strip_0x s =
     (case s of
        a # b # r \<Rightarrow>
          if a = CHR ''0'' \<and> (b = CHR ''x'' \<or> b = CHR ''X'')
          then (case r of u # r' \<Rightarrow> if u = CHR ''_'' then r' else r | [] \<Rightarrow> r)
          else s
      | _ \<Rightarrow> s)"

definition py_int_base16 :: "string \<Rightarrow> pyerr + int" where
  "py_int_base16 s =
     (case strip_sign (dropWhile py_isspace s) of (sign, s2) \<Rightarrow>
        (let s3 = strip_0x s2 in
         if take 1 s3 = ''_'' then Inl ValueError
         else (case long_from_binary_base False 0 0 s3 of
                 None \<Rightarrow> Inl ValueError
               | Some (v, n, rest) \<Rightarrow>
                   if n = 0 then Inl ValueError
                   else if dropWhile py_isspace rest = [] then Inr (sign * v)
                   else Inl ValueError)))"

section \<open>The toolkit: GdkPixbuf and Gdk\<close>

text \<open>
  The module imports \<^verbatim>\<open>Gdk\<close> and \<^verbatim>\<open>GdkPixbuf\<close> from \<^verbatim>\<open>gi.repository\<close>
  (GTK 3 through PyGObject). They are not part of the module; what the module calls
  is modelled here from the toolkit's documented behaviour.

  A pixbuf created by \<^verbatim>\<open>Pixbuf.new(Colorspace.RGB, has_alpha, bits, width, height)\<close>
  has \<open>width * height\<close> pixels. With an alpha channel a pixel is the four bytes
  red, green, blue, alpha, here one 32-bit word \<^verbatim>\<open>0xRRGGBBAA\<close>. The toolkit leaves
  the pixels of a new pixbuf uninitialised; the model starts them at 0, and both
  callers fill the pixbuf before returning it.
\<close>

record pixbuf =
  has_alpha :: bool
  bits_per_sample :: nat
  width :: nat
  height :: nat
  pixels :: "32 word list"

definition Pixbuf_new :: "bool \<Rightarrow> nat \<Rightarrow> nat \<Rightarrow> nat \<Rightarrow> pixbuf" where
  "Pixbuf_new alpha bits w h =
     \<lparr> has_alpha = alpha, bits_per_sample = bits, width = w, height = h,
       pixels = replicate (w * h) 0 \<rparr>"

text \<open>
  \<^verbatim>\<open>pixbuf.fill(pixel)\<close> takes a \<^verbatim>\<open>guint32\<close>: a Python integer outside
  \<open>0 .. 2^32 - 1\<close> raises \<^verbatim>\<open>OverflowError\<close> in the binding. Every pixel becomes
  the given one.
\<close>

definition to_guint32 :: "int \<Rightarrow> pyerr + 32 word" where
  "to_guint32 n = (if 0 \<le> n \<and> n < 2 ^ 32 then Inr (word_of_int n) else Inl OverflowError)"

definition fill :: "pixbuf \<Rightarrow> int \<Rightarrow> pyerr + pixbuf" where
  "fill pb pixel =
     (case to_guint32 pixel of
        Inl e \<Rightarrow> Inl e
      | Inr w \<Rightarrow> Inr (pb \<lparr> pixels := map (\<lambda>_. w) (pixels pb) \<rparr>))"

text \<open>The four bytes of a pixel: red, green, blue, alpha.\<close>

definition pixel_rgba :: "32 word \<Rightarrow> nat \<times> nat \<times> nat \<times> nat" where
  "pixel_rgba w =
     (unat (drop_bit 24 w AND 255), unat (drop_bit 16 w AND 255),
      unat (drop_bit 8 w AND 255), unat (w AND 255))"

text \<open>A 16 by 16 pixbuf with alpha channel, every pixel the same.\<close>

definition swatch :: "32 word \<Rightarrow> pixbuf" where
  "swatch w =
     \<lparr> has_alpha = True, bits_per_sample = 8, width = 16, height = 16,
       pixels = replicate 256 w \<rparr>"

text \<open>
  \<^verbatim>\<open>Gdk.RGBA\<close> has four channels, doubles between 0 and 1, represented by the real
  numbers they denote. The binding's constructor \<^verbatim>\<open>Gdk.RGBA()\<close> defaults every
  channel to 1.0 (opaque white).
\<close>

record rgba =
  red :: real
  green :: real
  blue :: real
  alpha :: real

definition RGBA_new :: rgba where
  "RGBA_new = \<lparr> red = 1.0, green = 1.0, blue = 1.0, alpha = 1.0 \<rparr>"

text \<open>
  \<^verbatim>\<open>rgba.parse(spec)\<close> wraps \<^verbatim>\<open>gdk_rgba_parse\<close>. The argument must be a string
  (another object raises \<^verbatim>\<open>TypeError\<close> in the binding). The call returns a
  boolean, never an exception: on success the channels are overwritten, on failure
  the object is left as it was. The parser is a function from the spec to the
  parsed channels, \<open>None\<close> where the toolkit returns \<^verbatim>\<open>False\<close>; \<open>parse\<close> gives
  the object after the call.
\<close>

type_synonym rgba_parser = "string \<Rightarrow> rgba option"

definition parse :: "rgba_parser \<Rightarrow> rgba \<Rightarrow> pyval \<Rightarrow> pyerr + rgba" where
  "parse p self spec =
     (case spec of
        PyStr s \<Rightarrow> Inr (case p s of Some r \<Rightarrow> r | None \<Rightarrow> self)
      | _ \<Rightarrow> Inl TypeError)"

text \<open>
  \<^verbatim>\<open>Gdk.Color(red, green, blue)\<close> has three 16-bit channels and no alpha; a value
  outside \<open>0 .. 65535\<close> raises \<^verbatim>\<open>OverflowError\<close>. \<^verbatim>\<open>rgba.to_color()\<close> of the
  binding is \<^verbatim>\<open>Color(int(self.red * 65535), int(self.green * 65535),
  int(self.blue * 65535))\<close>, where \<^verbatim>\<open>int\<close> truncates towards zero.
\<close>

datatype color = Color (color_red: nat) (color_green: nat) (color_blue: nat)

definition py_int_of_float :: "real \<Rightarrow> int" where
  "py_int_of_float x = (if 0 \<le> x then \<lfloor>x\<rfloor> else \<lceil>x\<rceil>)"

definition Color_new :: "int \<Rightarrow> int \<Rightarrow> int \<Rightarrow> pyerr + color" where
  "Color_new r g b =
     (if 0 \<le> r \<and> r \<le> 65535 \<and> 0 \<le> g \<and> g \<le> 65535 \<and> 0 \<le> b \<and> b \<le> 65535
      then Inr (Color (nat r) (nat g) (nat b))
      else Inl OverflowError)"

definition to_color :: "rgba \<Rightarrow> pyerr + color" where
  "to_color self =
     Color_new (py_int_of_float (red self * 65535))
               (py_int_of_float (green self * 65535))
               (py_int_of_float (blue self * 65535))"

text \<open>The 8-bit reading of a 16-bit channel is its high byte.\<close>

definition color_rgb8 :: "color \<Rightarrow> nat \<times> nat \<times> nat" where
  "color_rgb8 c = (color_red c div 256, color_green c div 256, color_blue c div 256)"

text \<open>
  \<^verbatim>\<open>gdk_rgba_parse\<close> of GTK 3 reads three kinds of spec: the functional notation
  \<^verbatim>\<open>rgb(r,g,b)\<close> and \<^verbatim>\<open>rgba(r,g,b,a)\<close>, a hexadecimal spec \<^verbatim>\<open>#rgb\<close>,
  \<^verbatim>\<open>#rrggbb\<close>, \<^verbatim>\<open>#rrrgggbbb\<close> or \<^verbatim>\<open>#rrrrggggbbbb\<close>, and a colour name of the
  X11 table; the last two are Pango's \<^verbatim>\<open>pango_color_parse\<close>. The hexadecimal
  specs are modelled in full below. The functional notation (which rests on the C
  library's \<^verbatim>\<open>strtod\<close>) and the name table are the parameter \<open>other\<close>.

  Pango's \<^verbatim>\<open>hex\<close> reads a run of hexadecimal digits into an \<^verbatim>\<open>unsigned int\<close>.
\<close>

fun hex :: "string \<Rightarrow> 32 word \<Rightarrow> 32 word option" where
  "hex [] c = Some c"
| "hex (x # xs) c =
     (case digit_value x of
        Some d \<Rightarrow> hex xs (push_bit 4 c OR of_nat d)
      | None \<Rightarrow> None)"

text \<open>
  A channel of \<open>bits\<close> bits is widened to 16 bits by repeating its bit pattern:
  \<^verbatim>\<open>r <<= 16 - bits; while (bits < 16) { r |= (r >> bits); bits *= 2; }\<close>.
  The channel has 4, 8, 12 or 16 bits.
\<close>

function repeat_bits :: "nat \<Rightarrow> 32 word \<Rightarrow> 32 word" where
  "repeat_bits bits r =
     (if 0 < bits \<and> bits < 16 then repeat_bits (bits * 2) (r OR drop_bit bits r) else r)"
  by pat_completeness auto
termination
  by (relation "measure (\<lambda>(bits, r). 16 - bits)") auto

definition widen :: "nat \<Rightarrow> 32 word \<Rightarrow> nat" where
  "widen bits r = unat (repeat_bits bits (push_bit (16 - bits) r))"

definition pango_color_parse_hex :: "string \<Rightarrow> (nat \<times> nat \<times> nat) option" where
  "pango_color_parse_hex digits =
     (let len = length digits in
      if len = 3 \<or> len = 6 \<or> len = 9 \<or> len = 12 then
        (let n = len div 3 in
         case hex (take n digits) 0 of
           None \<Rightarrow> None
         | Some r \<Rightarrow>
             (case hex (take n (drop n digits)) 0 of
                None \<Rightarrow> None
              | Some g \<Rightarrow>
                  (case hex (drop (2 * n) digits) 0 of
                     None \<Rightarrow> None
                   | Some b \<Rightarrow> Some (widen (4 * n) r, widen (4 * n) g, widen (4 * n) b))))
      else None)"

definition rgba_of_pango :: "nat \<times> nat \<times> nat \<Rightarrow> rgba" where
  "rgba_of_pango c =
     (case c of (r, g, b) \<Rightarrow>
        \<lparr> red = real r / 65535, green = real g / 65535, blue = real b / 65535, alpha = 1 \<rparr>)"

text \<open>The C function reads the string up to its first NUL character.\<close>

definition gdk_rgba_parse :: "rgba_parser \<Rightarrow> rgba_parser" where
  "gdk_rgba_parse other spec =
     (let str = takeWhile (\<lambda>c. c \<noteq> CHR 0x00) spec in
      if take 3 str = ''rgb'' then other str
      else (case str of
              [] \<Rightarrow> other str
            | c # digits \<Rightarrow>
                if c = CHR ''#'' then map_option rgba_of_pango (pango_color_parse_hex digits)
                else other str))"

text \<open>
  The instance used where a colour has to be computed: a parser that knows the
  hexadecimal specs only. The strings evaluated with it below either begin with
  \<^verbatim>\<open>#\<close> or are neither in functional notation nor a colour name of the toolkit's
  table, so the toolkit's answer for them is the one computed here.
\<close>

definition hex_specs_only :: rgba_parser where
  "hex_specs_only s = None"

section \<open>The methods of \<^verbatim>\<open>PlaneLayer\<close>\<close>

text \<open>
  \<^verbatim>\<open>get_pixbuf\<close> of \<^verbatim>\<open>PlaneLayer\<close>: the line colour without its first character,
  between \<^verbatim>\<open>0x\<close> and \<^verbatim>\<open>ff\<close>, read as a hexadecimal number, fills a 16 by 16
  pixbuf with alpha channel.
\<close>

definition PlaneLayer_get_pixbuf :: "layer \<Rightarrow> pyerr + pixbuf" where
  "PlaneLayer_get_pixbuf self =
     (case slice_from_1 (line_color self) of
        Inl e \<Rightarrow> Inl e
      | Inr s \<Rightarrow>
          (case py_int_base16 (format_0x_ff s) of
             Inl e \<Rightarrow> Inl e
           | Inr line_color_alpha \<Rightarrow> fill (Pixbuf_new True 8 16 16) line_color_alpha))"

text \<open>
  The derived-colour getters: a new \<^verbatim>\<open>Gdk.RGBA\<close>, \<^verbatim>\<open>parse\<close> of the stored
  attribute (its boolean result is dropped), \<^verbatim>\<open>to_color\<close>. The toolkit's parser is
  the argument \<open>p\<close>.
\<close>

definition rgba_to_color :: "rgba_parser \<Rightarrow> pyval \<Rightarrow> pyerr + color" where
  "rgba_to_color p spec =
     (case parse p RGBA_new spec of
        Inl e \<Rightarrow> Inl e
      | Inr rgba \<Rightarrow> to_color rgba)"

definition get_rgba :: "rgba_parser \<Rightarrow> layer \<Rightarrow> pyerr + color" where
  "get_rgba p self = rgba_to_color p (line_color self)"

definition get_marker_rgba :: "rgba_parser \<Rightarrow> layer \<Rightarrow> pyerr + color" where
  "get_marker_rgba p self = rgba_to_color p (marker_fill self)"

definition get_pole_rgba :: "rgba_parser \<Rightarrow> layer \<Rightarrow> pyerr + color" where
  "get_pole_rgba p self = rgba_to_color p (pole_fill self)"

definition get_pole_edge_rgba :: "rgba_parser \<Rightarrow> layer \<Rightarrow> pyerr + color" where
  "get_pole_edge_rgba p self = rgba_to_color p (pole_edge_color self)"

definition get_marker_edge_rgba :: "rgba_parser \<Rightarrow> layer \<Rightarrow> pyerr + color" where
  "get_marker_edge_rgba p self = rgba_to_color p (marker_edge_color self)"

definition get_contour_line_rgba :: "rgba_parser \<Rightarrow> layer \<Rightarrow> pyerr + color" where
  "get_contour_line_rgba p self = rgba_to_color p (contour_line_color self)"

text \<open>The plain getters and setters, in the order of the source.\<close>

definition get_data_treestore :: "layer \<Rightarrow> pyval" where
  "get_data_treestore self = data_treestore self"

definition get_data_treeview :: "layer \<Rightarrow> pyval" where
  "get_data_treeview self = data_treeview self"

definition get_layer_type :: "layer \<Rightarrow> pyval" where
  "get_layer_type self = type self"

definition get_line_color :: "layer \<Rightarrow> pyval" where
  "get_line_color self = line_color self"

definition set_line_color :: "layer \<Rightarrow> pyval \<Rightarrow> layer" where
  "set_line_color self new_color = self \<lparr> line_color := new_color \<rparr>"

definition get_label :: "layer \<Rightarrow> pyval" where
  "get_label self = label self"

definition set_label :: "layer \<Rightarrow> pyval \<Rightarrow> layer" where
  "set_label self new_label = self \<lparr> label := new_label \<rparr>"

definition get_line_width :: "layer \<Rightarrow> pyval" where
  "get_line_width self = line_width self"

definition set_line_width :: "layer \<Rightarrow> pyval \<Rightarrow> layer" where
  "set_line_width self new_line_width = self \<lparr> line_width := new_line_width \<rparr>"

definition get_line_style :: "layer \<Rightarrow> pyval" where
  "get_line_style self = line_style self"

definition set_line_style :: "layer \<Rightarrow> pyval \<Rightarrow> layer" where
  "set_line_style self new_line_style = self \<lparr> line_style := new_line_style \<rparr>"

definition get_capstyle :: "layer \<Rightarrow> pyval" where
  "get_capstyle self = capstyle self"

definition set_capstyle :: "layer \<Rightarrow> pyval \<Rightarrow> layer" where
  "set_capstyle self new_capstyle = self \<lparr> capstyle := new_capstyle \<rparr>"

definition get_pole_style :: "layer \<Rightarrow> pyval" where
  "get_pole_style self = pole_style self"

definition set_pole_style :: "layer \<Rightarrow> pyval \<Rightarrow> layer" where
  "set_pole_style self new_pole_style = self \<lparr> pole_style := new_pole_style \<rparr>"

definition get_pole_size :: "layer \<Rightarrow> pyval" where
  "get_pole_size self = pole_size self"

definition set_pole_size :: "layer \<Rightarrow> pyval \<Rightarrow> layer" where
  "set_pole_size self new_pole_size = self \<lparr> pole_size := new_pole_size \<rparr>"

definition get_pole_fill :: "layer \<Rightarrow> pyval" where
  "get_pole_fill self = pole_fill self"

definition set_pole_fill :: "layer \<Rightarrow> pyval \<Rightarrow> layer" where
  "set_pole_fill self new_pole_fill = self \<lparr> pole_fill := new_pole_fill \<rparr>"

definition get_pole_edge_color :: "layer \<Rightarrow> pyval" where
  "get_pole_edge_color self = pole_edge_color self"

definition set_pole_edge_color :: "layer \<Rightarrow> pyval \<Rightarrow> layer" where
  "set_pole_edge_color self new_pole_edge_color = self \<lparr> pole_edge_color := new_pole_edge_color \<rparr>"

definition get_pole_edge_width :: "layer \<Rightarrow> pyval" where
  "get_pole_edge_width self = pole_edge_width self"

definition set_pole_edge_width :: "layer \<Rightarrow> pyval \<Rightarrow> layer" where
  "set_pole_edge_width self new_pole_edge_width = self \<lparr> pole_edge_width := new_pole_edge_width \<rparr>"

definition get_pole_alpha :: "layer \<Rightarrow> pyval" where
  "get_pole_alpha self = pole_alpha self"

definition get_marker_style :: "layer \<Rightarrow> pyval" where
  "get_marker_style self = marker_style self"

definition set_marker_style :: "layer \<Rightarrow> pyval \<Rightarrow> layer" where
  "set_marker_style self new_marker_style = self \<lparr> marker_style := new_marker_style \<rparr>"

definition get_marker_size :: "layer \<Rightarrow> pyval" where
  "get_marker_size self = marker_size self"

definition set_marker_size :: "layer \<Rightarrow> pyval \<Rightarrow> layer" where
  "set_marker_size self new_marker_size = self \<lparr> marker_size := new_marker_size \<rparr>"

definition get_marker_fill :: "layer \<Rightarrow> pyval" where
  "get_marker_fill self = marker_fill self"

definition set_marker_fill :: "layer \<Rightarrow> pyval \<Rightarrow> layer" where
  "set_marker_fill self new_marker_fill = self \<lparr> marker_fill := new_marker_fill \<rparr>"

definition get_marker_edge_width :: "layer \<Rightarrow> pyval" where
  "get_marker_edge_width self = marker_edge_width self"

definition set_marker_edge_width :: "layer \<Rightarrow> pyval \<Rightarrow> layer" where
  "set_marker_edge_width self new_marker_edge_width = self \<lparr> marker_edge_width := new_marker_edge_width \<rparr>"

definition get_marker_edge_color :: "layer \<Rightarrow> pyval" where
  "get_marker_edge_color self = marker_edge_color self"

definition set_marker_edge_color :: "layer \<Rightarrow> pyval \<Rightarrow> layer" where
  "set_marker_edge_color self new_marker_edge_color = self \<lparr> marker_edge_color := new_marker_edge_color \<rparr>"

definition get_line_alpha :: "layer \<Rightarrow> pyval" where
  "get_line_alpha self = line_alpha self"

definition set_line_alpha :: "layer \<Rightarrow> pyval \<Rightarrow> layer" where
  "set_line_alpha self new_line_alpha = self \<lparr> line_alpha := new_line_alpha \<rparr>"

definition get_marker_alpha :: "layer \<Rightarrow> pyval" where
  "get_marker_alpha self = marker_alpha self"

definition set_marker_alpha :: "layer \<Rightarrow> pyval \<Rightarrow> layer" where
  "set_marker_alpha self new_marker_alpha = self \<lparr> marker_alpha := new_marker_alpha \<rparr>"

definition get_render_gcircles :: "layer \<Rightarrow> pyval" where
  "get_render_gcircles self = render_gcircles self"

definition set_render_gcircles :: "layer \<Rightarrow> pyval \<Rightarrow> layer" where
  "set_render_gcircles self new_render_gcircles_state = self \<lparr> render_gcircles := new_render_gcircles_state \<rparr>"

definition get_render_poles :: "layer \<Rightarrow> pyval" where
  "get_render_poles self = render_poles self"

definition set_render_poles :: "layer \<Rightarrow> pyval \<Rightarrow> layer" where
  "set_render_poles self new_render_poles_state = self \<lparr> render_poles := new_render_poles_state \<rparr>"

definition get_render_linears :: "layer \<Rightarrow> pyval" where
  "get_render_linears self = render_linears self"

definition set_render_linears :: "layer \<Rightarrow> pyval \<Rightarrow> layer" where
  "set_render_linears self new_render_linears_state = self \<lparr> render_linears := new_render_linears_state \<rparr>"

definition get_draw_contour_fills :: "layer \<Rightarrow> pyval" where
  "get_draw_contour_fills self = draw_contour_fills self"

definition set_draw_contour_fills :: "layer \<Rightarrow> pyval \<Rightarrow> layer" where
  "set_draw_contour_fills self new_state = self \<lparr> draw_contour_fills := new_state \<rparr>"

definition get_draw_contour_lines :: "layer \<Rightarrow> pyval" where
  "get_draw_contour_lines self = draw_contour_lines self"

definition set_draw_contour_lines :: "layer \<Rightarrow> pyval \<Rightarrow> layer" where
  "set_draw_contour_lines self new_state = self \<lparr> draw_contour_lines := new_state \<rparr>"

definition get_draw_contour_labels :: "layer \<Rightarrow> pyval" where
  "get_draw_contour_labels self = draw_contour_labels self"

definition set_draw_contour_labels :: "layer \<Rightarrow> pyval \<Rightarrow> layer" where
  "set_draw_contour_labels self new_state = self \<lparr> draw_contour_labels := new_state \<rparr>"

definition get_render_pole_contours :: "layer \<Rightarrow> pyval" where
  "get_render_pole_contours self = render_plane_contours self"

definition set_render_pole_contours :: "layer \<Rightarrow> pyval \<Rightarrow> layer" where
  "set_render_pole_contours self new_state = self \<lparr> render_plane_contours := new_state \<rparr>"

definition get_render_line_contours :: "layer \<Rightarrow> pyval" where
  "get_render_line_contours self = render_line_contours self"

definition set_render_line_contours :: "layer \<Rightarrow> pyval \<Rightarrow> layer" where
  "set_render_line_contours self new_state = self \<lparr> render_line_contours := new_state \<rparr>"

definition get_rose_spacing :: "layer \<Rightarrow> pyval" where
  "get_rose_spacing self = rose_spacing self"

definition set_rose_spacing :: "layer \<Rightarrow> pyval \<Rightarrow> layer" where
  "set_rose_spacing self new_spacing = self \<lparr> rose_spacing := new_spacing \<rparr>"

definition get_rose_bottom :: "layer \<Rightarrow> pyval" where
  "get_rose_bottom self = rose_bottom self"

definition set_rose_bottom :: "layer \<Rightarrow> pyval \<Rightarrow> layer" where
  "set_rose_bottom self new_bottom = self \<lparr> rose_bottom := new_bottom \<rparr>"

definition get_colormap :: "layer \<Rightarrow> pyval" where
  "get_colormap self = colormap self"

definition set_colormap :: "layer \<Rightarrow> pyval \<Rightarrow> layer" where
  "set_colormap self new_colormap = self \<lparr> colormap := new_colormap \<rparr>"

definition get_contour_resolution :: "layer \<Rightarrow> pyval" where
  "get_contour_resolution self = contour_resolution self"

definition set_contour_resolution :: "layer \<Rightarrow> pyval \<Rightarrow> layer" where
  "set_contour_resolution self new_resolution = self \<lparr> contour_resolution := new_resolution \<rparr>"

definition get_contour_method :: "layer \<Rightarrow> pyval" where
  "get_contour_method self = contour_method self"

definition set_contour_method :: "layer \<Rightarrow> pyval \<Rightarrow> layer" where
  "set_contour_method self new_method = self \<lparr> contour_method := new_method \<rparr>"

definition get_contour_line_width :: "layer \<Rightarrow> pyval" where
  "get_contour_line_width self = contour_line_width self"

definition set_contour_line_width :: "layer \<Rightarrow> pyval \<Rightarrow> layer" where
  "set_contour_line_width self new_width = self \<lparr> contour_line_width := new_width \<rparr>"

definition get_contour_line_color :: "layer \<Rightarrow> pyval" where
  "get_contour_line_color self = contour_line_color self"

definition set_contour_line_color :: "layer \<Rightarrow> pyval \<Rightarrow> layer" where
  "set_contour_line_color self new_color = self \<lparr> contour_line_color := new_color \<rparr>"

definition get_contour_sigma :: "layer \<Rightarrow> pyval" where
  "get_contour_sigma self = contour_sigma self"

definition set_contour_sigma :: "layer \<Rightarrow> pyval \<Rightarrow> layer" where
  "set_contour_sigma self new_sigma = self \<lparr> contour_sigma := new_sigma \<rparr>"

definition get_contour_line_style :: "layer \<Rightarrow> pyval" where
  "get_contour_line_style self = contour_line_style self"

definition set_contour_line_style :: "layer \<Rightarrow> pyval \<Rightarrow> layer" where
  "set_contour_line_style self new_style = self \<lparr> contour_line_style := new_style \<rparr>"

definition get_contour_label_size :: "layer \<Rightarrow> pyval" where
  "get_contour_label_size self = contour_label_size self"

definition set_contour_label_size :: "layer \<Rightarrow> pyval \<Rightarrow> layer" where
  "set_contour_label_size self new_size = self \<lparr> contour_label_size := new_size \<rparr>"

definition get_use_line_color :: "layer \<Rightarrow> pyval" where
  "get_use_line_color self = contour_use_line_color self"

definition set_use_line_color :: "layer \<Rightarrow> pyval \<Rightarrow> layer" where
  "set_use_line_color self new_state = self \<lparr> contour_use_line_color := new_state \<rparr>"

definition get_draw_hoeppener :: "layer \<Rightarrow> pyval" where
  "get_draw_hoeppener self = draw_hoeppener self"

definition set_draw_hoeppener :: "layer \<Rightarrow> pyval \<Rightarrow> layer" where
  "set_draw_hoeppener self new_state = self \<lparr> draw_hoeppener := new_state \<rparr>"

definition get_draw_lp_plane :: "layer \<Rightarrow> pyval" where
  "get_draw_lp_plane self = draw_lp_plane self"

definition set_draw_lp_plane :: "layer \<Rightarrow> pyval \<Rightarrow> layer" where
  "set_draw_lp_plane self new_state = self \<lparr> draw_lp_plane := new_state \<rparr>"

section \<open>The subclasses\<close>

text \<open>
  \<^verbatim>\<open>FaultPlaneLayer\<close> and \<^verbatim>\<open>SmallCircleLayer\<close> define \<^verbatim>\<open>__init__\<close> only (above).
  \<^verbatim>\<open>LineLayer\<close> overrides \<^verbatim>\<open>get_pixbuf\<close>: the same computation on the marker fill.
\<close>

definition LineLayer_get_pixbuf :: "layer \<Rightarrow> pyerr + pixbuf" where
  "LineLayer_get_pixbuf self =
     (case slice_from_1 (marker_fill self) of
        Inl e \<Rightarrow> Inl e
      | Inr s \<Rightarrow>
          (case py_int_base16 (format_0x_ff s) of
             Inl e \<Rightarrow> Inl e
           | Inr marker_color_alpha \<Rightarrow> fill (Pixbuf_new True 8 16 16) marker_color_alpha))"

section \<open>Method calls\<close>

text \<open>
  What a method call returns: a stored value (\<^verbatim>\<open>None\<close> for a setter), a
  \<^verbatim>\<open>Gdk.Color\<close> or a pixbuf.
\<close>

datatype retval = Value pyval | ColorValue color | PixbufValue pixbuf

text \<open>
  The methods of the module have three shapes: no argument and a result, the object
  left as it is (\<open>Method0\<close>); one argument, no result and an updated object
  (\<open>Method1\<close>); and \<^verbatim>\<open>__init__\<close>, two arguments, no result and an updated
  object (\<open>Method2\<close>).
\<close>

datatype pymethod =
    Method0 "layer \<Rightarrow> pyerr + retval"
  | Method1 "layer \<Rightarrow> pyval \<Rightarrow> layer"
  | Method2 "layer \<Rightarrow> pyval \<Rightarrow> pyval \<Rightarrow> layer"

definition getter :: "(layer \<Rightarrow> pyval) \<Rightarrow> pymethod" where
  "getter g = Method0 (\<lambda>self. Inr (Value (g self)))"

definition color_getter :: "(layer \<Rightarrow> pyerr + color) \<Rightarrow> pymethod" where
  "color_getter g = Method0 (\<lambda>self. case g self of Inl e \<Rightarrow> Inl e | Inr c \<Rightarrow> Inr (ColorValue c))"

definition pixbuf_getter :: "(layer \<Rightarrow> pyerr + pixbuf) \<Rightarrow> pymethod" where
  "pixbuf_getter g = Method0 (\<lambda>self. case g self of Inl e \<Rightarrow> Inl e | Inr b \<Rightarrow> Inr (PixbufValue b))"

definition setter :: "(layer \<Rightarrow> pyval \<Rightarrow> layer) \<Rightarrow> pymethod" where
  "setter s = Method1 s"

text \<open>
  The methods that the body of \<^verbatim>\<open>class PlaneLayer\<close> defines, by name, in the order
  of the source. \<^verbatim>\<open>__init__\<close> is an ordinary method: called on a constructed
  layer it assigns all 42 attributes again and leaves the class of the object, so the
  object after \<^verbatim>\<open>PlaneLayer.__init__(self, treestore, treeview)\<close> is
  \<open>PlaneLayer_init (cls self) treestore treeview\<close>.
\<close>

definition PlaneLayer_dict :: "rgba_parser \<Rightarrow> (string \<times> pymethod) list" where
  "PlaneLayer_dict p =
     [(''__init__'', Method2 (\<lambda>self. PlaneLayer_init (cls self))),
      (''get_pixbuf'', pixbuf_getter PlaneLayer_get_pixbuf),
      (''get_rgba'', color_getter (get_rgba p)),
      (''get_marker_rgba'', color_getter (get_marker_rgba p)),
      (''get_pole_rgba'', color_getter (get_pole_rgba p)),
      (''get_pole_edge_rgba'', color_getter (get_pole_edge_rgba p)),
      (''get_marker_edge_rgba'', color_getter (get_marker_edge_rgba p)),
      (''get_data_treestore'', getter get_data_treestore),
      (''get_data_treeview'', getter get_data_treeview),
      (''get_layer_type'', getter get_layer_type),
      (''get_line_color'', getter get_line_color),
      (''set_line_color'', setter set_line_color),
      (''get_label'', getter get_label),
      (''set_label'', setter set_label),
      (''get_line_width'', getter get_line_width),
      (''set_line_width'', setter set_line_width),
      (''get_line_style'', getter get_line_style),
      (''set_line_style'', setter set_line_style),
      (''get_capstyle'', getter get_capstyle),
      (''set_capstyle'', setter set_capstyle),
      (''get_pole_style'', getter get_pole_style),
      (''set_pole_style'', setter set_pole_style),
      (''get_pole_size'', getter get_pole_size),
      (''set_pole_size'', setter set_pole_size),
      (''get_pole_fill'', getter get_pole_fill),
      (''set_pole_fill'', setter set_pole_fill),
      (''get_pole_edge_color'', getter get_pole_edge_color),
      (''set_pole_edge_color'', setter set_pole_edge_color),
      (''get_pole_edge_width'', getter get_pole_edge_width),
      (''set_pole_edge_width'', setter set_pole_edge_width),
      (''get_pole_alpha'', getter get_pole_alpha),
      (''get_marker_style'', getter get_marker_style),
      (''set_marker_style'', setter set_marker_style),
      (''get_marker_size'', getter get_marker_size),
      (''set_marker_size'', setter set_marker_size),
      (''get_marker_fill'', getter get_marker_fill),
      (''set_marker_fill'', setter set_marker_fill),
      (''get_marker_edge_width'', getter get_marker_edge_width),
      (''set_marker_edge_width'', setter set_marker_edge_width),
      (''get_marker_edge_color'', getter get_marker_edge_color),
      (''set_marker_edge_color'', setter set_marker_edge_color),
      (''get_line_alpha'', getter get_line_alpha),
      (''set_line_alpha'', setter set_line_alpha),
      (''get_marker_alpha'', getter get_marker_alpha),
      (''set_marker_alpha'', setter set_marker_alpha),
      (''get_render_gcircles'', getter get_render_gcircles),
      (''set_render_gcircles'', setter set_render_gcircles),
      (''get_render_poles'', getter get_render_poles),
      (''set_render_poles'', setter set_render_poles),
      (''get_render_linears'', getter get_render_linears),
      (''set_render_linears'', setter set_render_linears),
      (''get_draw_contour_fills'', getter get_draw_contour_fills),
      (''set_draw_contour_fills'', setter set_draw_contour_fills),
      (''get_draw_contour_lines'', getter get_draw_contour_lines),
      (''set_draw_contour_lines'', setter set_draw_contour_lines),
      (''get_draw_contour_labels'', getter get_draw_contour_labels),
      (''set_draw_contour_labels'', setter set_draw_contour_labels),
      (''get_render_pole_contours'', getter get_render_pole_contours),
      (''set_render_pole_contours'', setter set_render_pole_contours),
      (''get_render_line_contours'', getter get_render_line_contours),
      (''set_render_line_contours'', setter set_render_line_contours),
      (''get_rose_spacing'', getter get_rose_spacing),
      (''set_rose_spacing'', setter set_rose_spacing),
      (''get_rose_bottom'', getter get_rose_bottom),
      (''set_rose_bottom'', setter set_rose_bottom),
      (''get_colormap'', getter get_colormap),
      (''set_colormap'', setter set_colormap),
      (''get_contour_resolution'', getter get_contour_resolution),
      (''set_contour_resolution'', setter set_contour_resolution),
      (''get_contour_method'', getter get_contour_method),
      (''set_contour_method'', setter set_contour_method),
      (''get_contour_line_width'', getter get_contour_line_width),
      (''set_contour_line_width'', setter set_contour_line_width),
      (''get_contour_line_color'', getter get_contour_line_color),
      (''set_contour_line_color'', setter set_contour_line_color),
      (''get_contour_line_rgba'', color_getter (get_contour_line_rgba p)),
      (''get_contour_sigma'', getter get_contour_sigma),
      (''set_contour_sigma'', setter set_contour_sigma),
      (''get_contour_line_style'', getter get_contour_line_style),
      (''set_contour_line_style'', setter set_contour_line_style),
      (''get_contour_label_size'', getter get_contour_label_size),
      (''set_contour_label_size'', setter set_contour_label_size),
      (''get_use_line_color'', getter get_use_line_color),
      (''set_use_line_color'', setter set_use_line_color),
      (''get_draw_hoeppener'', getter get_draw_hoeppener),
      (''set_draw_hoeppener'', setter set_draw_hoeppener),
      (''get_draw_lp_plane'', getter get_draw_lp_plane),
      (''set_draw_lp_plane'', setter set_draw_lp_plane)]"

text \<open>
  The methods each class body defines itself, and the base class of each class. The
  \<^verbatim>\<open>__init__\<close> of a subclass is found on instances of that subclass only (the
  module has no class below it), whose class it leaves.
\<close>

definition class_dict :: "rgba_parser \<Rightarrow> layer_class \<Rightarrow> (string \<times> pymethod) list" where
  "class_dict p c =
     (case c of
        PlaneLayer \<Rightarrow> PlaneLayer_dict p
      | FaultPlaneLayer \<Rightarrow> [(''__init__'', Method2 (\<lambda>self. FaultPlaneLayer_init))]
      | LineLayer \<Rightarrow>
          [(''__init__'', Method2 (\<lambda>self. LineLayer_init)),
           (''get_pixbuf'', pixbuf_getter LineLayer_get_pixbuf)]
      | SmallCircleLayer \<Rightarrow> [(''__init__'', Method2 (\<lambda>self. SmallCircleLayer_init))])"

definition base :: "layer_class \<Rightarrow> layer_class option" where
  "base c = (case c of PlaneLayer \<Rightarrow> None | _ \<Rightarrow> Some PlaneLayer)"

text \<open>
  Method resolution: the class of the instance first, then its base class. No class
  of the module is more than one step from \<^verbatim>\<open>PlaneLayer\<close>.
\<close>

definition find_method :: "rgba_parser \<Rightarrow> layer_class \<Rightarrow> string \<Rightarrow> pymethod option" where
  "find_method p c name =
     (case map_of (class_dict p c) name of
        Some m \<Rightarrow> Some m
      | None \<Rightarrow>
          (case base c of
             None \<Rightarrow> None
           | Some b \<Rightarrow> map_of (class_dict p b) name))"

text \<open>The instance attributes by name: what \<^verbatim>\<open>self.name\<close> reads.\<close>

definition instance_attributes :: "(string \<times> (layer \<Rightarrow> pyval)) list" where
  "instance_attributes =
     [(''data_treestore'', data_treestore),
      (''data_treeview'', data_treeview),
      (''type'', type),
      (''label'', label),
      (''render_gcircles'', render_gcircles),
      (''line_color'', line_color),
      (''line_width'', line_width),
      (''line_style'', line_style),
      (''line_alpha'', line_alpha),
      (''capstyle'', capstyle),
      (''render_poles'', render_poles),
      (''pole_style'', pole_style),
      (''pole_size'', pole_size),
      (''pole_fill'', pole_fill),
      (''pole_edge_color'', pole_edge_color),
      (''pole_edge_width'', pole_edge_width),
      (''pole_alpha'', pole_alpha),
      (''render_linears'', render_linears),
      (''marker_style'', marker_style),
      (''marker_size'', marker_size),
      (''marker_fill'', marker_fill),
      (''marker_edge_color'', marker_edge_color),
      (''marker_edge_width'', marker_edge_width),
      (''marker_alpha'', marker_alpha),
      (''rose_spacing'', rose_spacing),
      (''rose_bottom'', rose_bottom),
      (''draw_hoeppener'', draw_hoeppener),
      (''draw_lp_plane'', draw_lp_plane),
      (''draw_contour_fills'', draw_contour_fills),
      (''draw_contour_lines'', draw_contour_lines),
      (''draw_contour_labels'', draw_contour_labels),
      (''render_plane_contours'', render_plane_contours),
      (''render_line_contours'', render_line_contours),
      (''colormap'', colormap),
      (''contour_resolution'', contour_resolution),
      (''contour_method'', contour_method),
      (''contour_sigma'', contour_sigma),
      (''contour_line_color'', contour_line_color),
      (''contour_use_line_color'', contour_use_line_color),
      (''contour_line_width'', contour_line_width),
      (''contour_line_style'', contour_line_style),
      (''contour_label_size'', contour_label_size)]"

text \<open>
  The names the model covers: those the module defines, \<^verbatim>\<open>__init__\<close> among them,
  and every name that does not begin with two underscores (no class of the module
  and no Python object has such a name unless the module defines it). The other
  names beginning with two underscores are those every Python object inherits from
  \<^verbatim>\<open>object\<close> (\<^verbatim>\<open>__setattr__\<close>, \<^verbatim>\<open>__eq__\<close>, ...); they are outside the model.
\<close>

definition in_model :: "string \<Rightarrow> bool" where
  "in_model name = (name = ''__init__'' \<or> take 2 name \<noteq> ''__'')"

text \<open>
  \<^verbatim>\<open>self.name(*args)\<close> on a constructed layer: \<open>None\<close> for a name outside the
  model, otherwise the result and the object after the call, or the exception.
  Python looks the name up on the instance first: a name that is an instance
  attribute holds a value that cannot be called (\<^verbatim>\<open>TypeError\<close>); a name that is
  neither an attribute nor a method raises \<^verbatim>\<open>AttributeError\<close>; a wrong number of
  arguments raises \<^verbatim>\<open>TypeError\<close>.
\<close>

definition call ::
  "rgba_parser \<Rightarrow> layer \<Rightarrow> string \<Rightarrow> pyval list \<Rightarrow> (pyerr + retval \<times> layer) option" where
  "call p self name args =
     (if in_model name then
        Some
          (case map_of instance_attributes name of
             Some a \<Rightarrow> Inl TypeError
           | None \<Rightarrow>
               (case find_method p (cls self) name of
                  None \<Rightarrow> Inl AttributeError
                | Some (Method0 f) \<Rightarrow>
                    (case args of
                       [] \<Rightarrow> (case f self of Inl e \<Rightarrow> Inl e | Inr r \<Rightarrow> Inr (r, self))
                     | _ \<Rightarrow> Inl TypeError)
                | Some (Method1 f) \<Rightarrow>
                    (case args of
                       [v] \<Rightarrow> Inr (Value PyNone, f self v)
                     | _ \<Rightarrow> Inl TypeError)
                | Some (Method2 f) \<Rightarrow>
                    (case args of
                       [a, b] \<Rightarrow> Inr (Value PyNone, f self a b)
                     | _ \<Rightarrow> Inl TypeError)))
      else None)"

text \<open>
  A sequence of calls on one layer: the layer after them, \<open>None\<close> if one of the
  names is outside the model. A call that raises leaves the layer as it was (no
  method of the module assigns before it raises), and the caller goes on.
\<close>

fun after_calls ::
  "rgba_parser \<Rightarrow> layer \<Rightarrow> (string \<times> pyval list) list \<Rightarrow> layer option" where
  "after_calls p self [] = Some self"
| "after_calls p self ((name, args) # rest) =
     (case call p self name args of
        None \<Rightarrow> None
      | Some (Inl e) \<Rightarrow> after_calls p self rest
      | Some (Inr (r, self')) \<Rightarrow> after_calls p self' rest)"

text \<open>
  Of a sequence of calls, those of names in the model, and those of names that do
  not begin with two underscores (the calls that are not a second \<^verbatim>\<open>__init__\<close>).
  Every sequence of calls of such names is of this form.
\<close>

definition module_calls :: "(string \<times> pyval list) list \<Rightarrow> (string \<times> pyval list) list" where
  "module_calls calls = filter (\<lambda>(name, args). in_model name) calls"

definition plain_calls :: "(string \<times> pyval list) list \<Rightarrow> (string \<times> pyval list) list" where
  "plain_calls calls = filter (\<lambda>(name, args). take 2 name \<noteq> ''__'') calls"

text \<open>
  Instantiation \<^verbatim>\<open>C(treestore, treeview)\<close> of a class of the module runs the
  \<^verbatim>\<open>__init__\<close> of that class on a new object (\<open>init\<close>). A number of arguments
  other than two raises \<^verbatim>\<open>TypeError\<close>; the arguments themselves are not
  inspected.
\<close>

definition init :: "layer_class \<Rightarrow> pyval \<Rightarrow> pyval \<Rightarrow> layer" where
  "init c treestore treeview =
     (case c of
        PlaneLayer \<Rightarrow> PlaneLayer_init PlaneLayer treestore treeview
      | FaultPlaneLayer \<Rightarrow> FaultPlaneLayer_init treestore treeview
      | LineLayer \<Rightarrow> LineLayer_init treestore treeview
      | SmallCircleLayer \<Rightarrow> SmallCircleLayer_init treestore treeview)"

definition new :: "layer_class \<Rightarrow> pyval list \<Rightarrow> pyerr + layer" where
  "new c args =
     (case args of
        [treestore, treeview] \<Rightarrow> Inr (init c treestore treeview)
      | _ \<Rightarrow> Inl TypeError)"

text \<open>
  The setters, each with the name of the attribute its body assigns.
\<close>

definition setters :: "(string \<times> (layer \<Rightarrow> pyval \<Rightarrow> layer)) list" where
  "setters =
     [(''line_color'', set_line_color),
      (''label'', set_label),
      (''line_width'', set_line_width),
      (''line_style'', set_line_style),
      (''capstyle'', set_capstyle),
      (''pole_style'', set_pole_style),
      (''pole_size'', set_pole_size),
      (''pole_fill'', set_pole_fill),
      (''pole_edge_color'', set_pole_edge_color),
      (''pole_edge_width'', set_pole_edge_width),
      (''marker_style'', set_marker_style),
      (''marker_size'', set_marker_size),
      (''marker_fill'', set_marker_fill),
      (''marker_edge_width'', set_marker_edge_width),
      (''marker_edge_color'', set_marker_edge_color),
      (''line_alpha'', set_line_alpha),
      (''marker_alpha'', set_marker_alpha),
      (''render_gcircles'', set_render_gcircles),
      (''render_poles'', set_render_poles),
      (''render_linears'', set_render_linears),
      (''draw_contour_fills'', set_draw_contour_fills),
      (''draw_contour_lines'', set_draw_contour_lines),
      (''draw_contour_labels'', set_draw_contour_labels),
      (''render_plane_contours'', set_render_pole_contours),
      (''render_line_contours'', set_render_line_contours),
      (''rose_spacing'', set_rose_spacing),
      (''rose_bottom'', set_rose_bottom),
      (''colormap'', set_colormap),
      (''contour_resolution'', set_contour_resolution),
      (''contour_method'', set_contour_method),
      (''contour_line_width'', set_contour_line_width),
      (''contour_line_color'', set_contour_line_color),
      (''contour_sigma'', set_contour_sigma),
      (''contour_line_style'', set_contour_line_style),
      (''contour_label_size'', set_contour_label_size),
      (''contour_use_line_color'', set_use_line_color),
      (''draw_hoeppener'', set_draw_hoeppener),
      (''draw_lp_plane'', set_draw_lp_plane)]"

text \<open>
  A property of a method, for the proofs below: a method other than \<^verbatim>\<open>__init__\<close>
  keeps the attributes \<^verbatim>\<open>type\<close>, \<^verbatim>\<open>pole_alpha\<close>, \<^verbatim>\<open>data_treestore\<close> and
  \<^verbatim>\<open>data_treeview\<close> and the class of the object.
\<close>

definition keeps_fixed :: "pymethod \<Rightarrow> bool" where
  "keeps_fixed m =
     (case m of
        Method0 f \<Rightarrow> True
      | Method1 f \<Rightarrow>
          (\<forall>l v. type (f l v) = type l \<and> cls (f l v) = cls l \<and>
             pole_alpha (f l v) = pole_alpha l \<and>
             data_treestore (f l v) = data_treestore l \<and>
             data_treeview (f l v) = data_treeview l)
      | Method2 f \<Rightarrow> False)"

section \<open>Accessors: round trip and frame\<close>

lemmas getter_defs =
  get_data_treestore_def get_data_treeview_def get_layer_type_def get_line_color_def
  get_label_def get_line_width_def get_line_style_def get_capstyle_def
  get_pole_style_def get_pole_size_def get_pole_fill_def get_pole_edge_color_def
  get_pole_edge_width_def get_pole_alpha_def get_marker_style_def get_marker_size_def
  get_marker_fill_def get_marker_edge_width_def get_marker_edge_color_def
  get_line_alpha_def get_marker_alpha_def get_render_gcircles_def get_render_poles_def
  get_render_linears_def get_draw_contour_fills_def get_draw_contour_lines_def
  get_draw_contour_labels_def get_render_pole_contours_def get_render_line_contours_def
  get_rose_spacing_def get_rose_bottom_def get_colormap_def get_contour_resolution_def
  get_contour_method_def get_contour_line_width_def get_contour_line_color_def
  get_contour_sigma_def get_contour_line_style_def get_contour_label_size_def
  get_use_line_color_def get_draw_hoeppener_def get_draw_lp_plane_def

lemmas setter_defs =
  set_line_color_def set_label_def set_line_width_def set_line_style_def
  set_capstyle_def set_pole_style_def set_pole_size_def set_pole_fill_def
  set_pole_edge_color_def set_pole_edge_width_def set_marker_style_def
  set_marker_size_def set_marker_fill_def set_marker_edge_width_def
  set_marker_edge_color_def set_line_alpha_def set_marker_alpha_def
  set_render_gcircles_def set_render_poles_def set_render_linears_def
  set_draw_contour_fills_def set_draw_contour_lines_def set_draw_contour_labels_def
  set_render_pole_contours_def set_render_line_contours_def set_rose_spacing_def
  set_rose_bottom_def set_colormap_def set_contour_resolution_def
  set_contour_method_def set_contour_line_width_def set_contour_line_color_def
  set_contour_sigma_def set_contour_line_style_def set_contour_label_size_def
  set_use_line_color_def set_draw_hoeppener_def set_draw_lp_plane_def

text \<open>
  C1. For every attribute with a getter and a setter (38 pairs; the attribute
  \<^verbatim>\<open>pole_alpha\<close> has a getter only and is not among them), on a layer \<open>l\<close> of
  any class in any state and for any value \<open>v\<close>: the getter after the setter
  returns \<open>v\<close>, the very value that was stored.
\<close>

theorem setter_getter_roundtrip:
  "get_line_color (set_line_color l v) = v \<and>
   get_label (set_label l v) = v \<and>
   get_line_width (set_line_width l v) = v \<and>
   get_line_style (set_line_style l v) = v \<and>
   get_capstyle (set_capstyle l v) = v \<and>
   get_pole_style (set_pole_style l v) = v \<and>
   get_pole_size (set_pole_size l v) = v \<and>
   get_pole_fill (set_pole_fill l v) = v \<and>
   get_pole_edge_color (set_pole_edge_color l v) = v \<and>
   get_pole_edge_width (set_pole_edge_width l v) = v \<and>
   get_marker_style (set_marker_style l v) = v \<and>
   get_marker_size (set_marker_size l v) = v \<and>
   get_marker_fill (set_marker_fill l v) = v \<and>
   get_marker_edge_width (set_marker_edge_width l v) = v \<and>
   get_marker_edge_color (set_marker_edge_color l v) = v \<and>
   get_line_alpha (set_line_alpha l v) = v \<and>
   get_marker_alpha (set_marker_alpha l v) = v \<and>
   get_render_gcircles (set_render_gcircles l v) = v \<and>
   get_render_poles (set_render_poles l v) = v \<and>
   get_render_linears (set_render_linears l v) = v \<and>
   get_draw_contour_fills (set_draw_contour_fills l v) = v \<and>
   get_draw_contour_lines (set_draw_contour_lines l v) = v \<and>
   get_draw_contour_labels (set_draw_contour_labels l v) = v \<and>
   get_render_pole_contours (set_render_pole_contours l v) = v \<and>
   get_render_line_contours (set_render_line_contours l v) = v \<and>
   get_rose_spacing (set_rose_spacing l v) = v \<and>
   get_rose_bottom (set_rose_bottom l v) = v \<and>
   get_colormap (set_colormap l v) = v \<and>
   get_contour_resolution (set_contour_resolution l v) = v \<and>
   get_contour_method (set_contour_method l v) = v \<and>
   get_contour_line_width (set_contour_line_width l v) = v \<and>
   get_contour_line_color (set_contour_line_color l v) = v \<and>
   get_contour_sigma (set_contour_sigma l v) = v \<and>
   get_contour_line_style (set_contour_line_style l v) = v \<and>
   get_contour_label_size (set_contour_label_size l v) = v \<and>
   get_use_line_color (set_use_line_color l v) = v \<and>
   get_draw_hoeppener (set_draw_hoeppener l v) = v \<and>
   get_draw_lp_plane (set_draw_lp_plane l v) = v"
  by (simp add: getter_defs setter_defs)

lemma setters_frame_all:
  "\<forall>(a, s) \<in> set setters. \<forall>(b, g) \<in> set instance_attributes.
     a \<noteq> b \<longrightarrow> g (s l v) = g l"
  by (simp add: setters_def instance_attributes_def setter_defs)

lemma setters_cls_all: "\<forall>(a, s) \<in> set setters. cls (s l v) = cls l"
  by (simp add: setters_def setter_defs)

text \<open>
  C2. A setter leaves every attribute other than its own as it was: for a setter
  \<open>s\<close> that assigns attribute \<open>a\<close> and any of the 42 instance attributes \<open>b\<close>
  other than \<open>a\<close> (among them \<^verbatim>\<open>type\<close>, \<^verbatim>\<open>label\<close>, \<^verbatim>\<open>data_treestore\<close>,
  \<^verbatim>\<open>data_treeview\<close> and all styling attributes), \<open>b\<close> reads the same before and
  after the call; the class of the object does not change either.
\<close>

theorem setter_frame:
  assumes "(a, s) \<in> set setters" and "(b, g) \<in> set instance_attributes" and "a \<noteq> b"
  shows "g (s l v) = g l \<and> cls (s l v) = cls l"
  using assms setters_frame_all [of l v] setters_cls_all [of l v] by blast

theorem setter_frame_witness:
  "(''line_alpha'', set_line_alpha) \<in> set setters \<and>
   (''label'', label) \<in> set instance_attributes \<and>
   ''line_alpha'' \<noteq> ''label'' \<and>
   label (set_line_alpha (init FaultPlaneLayer (PyObj 1) (PyObj 2)) (PyFloat 0.5)) =
     label (init FaultPlaneLayer (PyObj 1) (PyObj 2)) \<and>
   cls (set_line_alpha (init FaultPlaneLayer (PyObj 1) (PyObj 2)) (PyFloat 0.5)) =
     cls (init FaultPlaneLayer (PyObj 1) (PyObj 2))"
proof -
  have h1: "(''line_alpha'', set_line_alpha) \<in> set setters"
    by (simp add: setters_def)
  have h2: "(''label'', label) \<in> set instance_attributes"
    by (simp add: instance_attributes_def)
  have h3: "''line_alpha'' \<noteq> ''label''"
    by simp
  show ?thesis
    using h1 h2 h3
      setter_frame [OF h1 h2 h3, of "init FaultPlaneLayer (PyObj 1) (PyObj 2)" "PyFloat 0.5"]
    by simp
qed

section \<open>What a method call can change\<close>

lemmas method_defs = getter_def setter_def color_getter_def pixbuf_getter_def

lemmas init_defs =
  init_def PlaneLayer_init_def FaultPlaneLayer_init_def LineLayer_init_def
  SmallCircleLayer_init_def

lemma PlaneLayer_dict_keeps:
  "\<forall>(n, m) \<in> set (PlaneLayer_dict p). n = ''__init__'' \<or> keeps_fixed m"
  by (simp add: PlaneLayer_dict_def keeps_fixed_def method_defs setter_defs)

lemma find_method_keeps:
  assumes "find_method p c name = Some m" and "name \<noteq> ''__init__''"
  shows "keeps_fixed m"
proof -
  have own: "\<And>m. map_of (class_dict p PlaneLayer) name = Some m \<Longrightarrow> keeps_fixed m"
    using PlaneLayer_dict_keeps [of p] assms(2)
    by (auto simp: class_dict_def dest!: map_of_SomeD)
  show ?thesis
    using assms own
    by (cases c)
       (auto simp: find_method_def class_dict_def base_def keeps_fixed_def pixbuf_getter_def
             split: option.splits if_splits)
qed

lemma find_init:
  "\<exists>f. find_method p c ''__init__'' = Some (Method2 f) \<and>
       (\<forall>l a b. cls l = c \<longrightarrow> f l a b = init c a b)"
  by (cases c)
     (simp_all add: find_method_def class_dict_def base_def PlaneLayer_dict_def init_def)

lemma init_attr: "map_of instance_attributes ''__init__'' = None"
  by (simp add: instance_attributes_def)

lemma call_init:
  "call p l ''__init__'' [a, b] = Some (Inr (Value PyNone, init (cls l) a b))"
proof -
  obtain f where "find_method p (cls l) ''__init__'' = Some (Method2 f)"
    and "f l a b = init (cls l) a b"
    using find_init [of p "cls l"] by blast
  then show ?thesis
    by (simp add: call_def in_model_def init_attr)
qed

lemma call_init_only:
  assumes "call p l ''__init__'' args = Some (Inr (r, l'))"
  shows "\<exists>a b. l' = init (cls l) a b"
proof -
  obtain f where f: "find_method p (cls l) ''__init__'' = Some (Method2 f)"
    and eq: "\<And>a b. f l a b = init (cls l) a b"
    using find_init [of p "cls l"] by blast
  from assms f show ?thesis
    by (auto simp: call_def in_model_def init_attr eq split: list.splits)
qed

lemma call_keeps:
  assumes "call p l name args = Some (Inr (r, l'))" and "name \<noteq> ''__init__''"
  shows "type l' = type l \<and> cls l' = cls l \<and> pole_alpha l' = pole_alpha l \<and>
         data_treestore l' = data_treestore l \<and> data_treeview l' = data_treeview l"
  using assms find_method_keeps [of p "cls l" name]
  by (auto simp: call_def keeps_fixed_def
           split: if_splits option.splits pymethod.splits list.splits sum.splits)

lemma init_facts:
  "cls (init c s v) = c" "line_color (init c s v) = PyStr ''#0000ff''"
  "marker_fill (init c s v) = PyStr ''#1283eb''"
  "pole_alpha (init c s v) = PyFloat 1"
  "type (init c s v) =
     PyStr (case c of PlaneLayer \<Rightarrow> ''plane'' | FaultPlaneLayer \<Rightarrow> ''faultplane''
            | LineLayer \<Rightarrow> ''line'' | SmallCircleLayer \<Rightarrow> ''smallcircle'')"
  by (cases c; simp add: init_defs)+

lemma in_model_plain: "take 2 name \<noteq> ''__'' \<Longrightarrow> in_model name \<and> name \<noteq> ''__init__''"
  by (auto simp: in_model_def)

lemma after_plain_calls:
  "\<exists>l'. after_calls p l (plain_calls calls) = Some l' \<and> type l' = type l \<and>
     cls l' = cls l \<and> pole_alpha l' = pole_alpha l \<and>
     data_treestore l' = data_treestore l \<and> data_treeview l' = data_treeview l"
proof (induction calls arbitrary: l)
  case Nil
  show ?case by (simp add: plain_calls_def)
next
  case (Cons c calls)
  obtain name args where c: "c = (name, args)" by (cases c)
  show ?case
  proof (cases "take 2 name = ''__''")
    case True
    then show ?thesis using Cons.IH [of l] c by (simp add: plain_calls_def)
  next
    case False
    then have ok: "in_model name" "name \<noteq> ''__init__''"
      using in_model_plain [of name] by simp_all
    then obtain res where res: "call p l name args = Some res"
      by (simp add: call_def)
    show ?thesis
    proof (cases res)
      case (Inl e)
      then show ?thesis using Cons.IH [of l] c False res by (simp add: plain_calls_def)
    next
      case (Inr x)
      obtain r l'' where x: "x = (r, l'')" by (cases x)
      from res Inr x call_keeps [of p l name args r l''] ok
      have "type l'' = type l \<and> cls l'' = cls l \<and> pole_alpha l'' = pole_alpha l \<and>
            data_treestore l'' = data_treestore l \<and> data_treeview l'' = data_treeview l"
        by simp
      with Cons.IH [of l''] c False res Inr x show ?thesis
        by (simp add: plain_calls_def)
    qed
  qed
qed

lemma after_module_calls:
  assumes "type l = type (init (cls l) PyNone PyNone)" and "pole_alpha l = PyFloat 1"
  shows "\<exists>l'. after_calls p l (module_calls calls) = Some l' \<and> type l' = type l \<and>
           cls l' = cls l \<and> pole_alpha l' = PyFloat 1"
  using assms
proof (induction calls arbitrary: l)
  case Nil
  then show ?case by (simp add: module_calls_def)
next
  case (Cons c calls)
  obtain name args where c: "c = (name, args)" by (cases c)
  show ?case
  proof (cases "in_model name")
    case False
    then show ?thesis using Cons.IH [of l] Cons.prems c by (simp add: module_calls_def)
  next
    case True
    then obtain res where res: "call p l name args = Some res"
      by (simp add: call_def)
    show ?thesis
    proof (cases res)
      case (Inl e)
      then show ?thesis
        using Cons.IH [of l] Cons.prems c True res by (simp add: module_calls_def)
    next
      case (Inr x)
      obtain r l'' where x: "x = (r, l'')" by (cases x)
      have step: "type l'' = type l \<and> cls l'' = cls l \<and> pole_alpha l'' = PyFloat 1"
      proof (cases "name = ''__init__''")
        case True
        with res Inr x call_init_only [of p l args r l'']
        obtain a b where "l'' = init (cls l) a b" by auto
        then show ?thesis
          using Cons.prems by (simp add: init_facts)
      next
        case False
        with res Inr x call_keeps [of p l name args r l''] Cons.prems
        show ?thesis by simp
      qed
      with Cons.IH [of l''] Cons.prems c True res Inr x show ?thesis
        by (simp add: module_calls_def)
    qed
  qed
qed

section \<open>Getters without a setter\<close>

lemma set_pole_alpha_not_attr: "map_of instance_attributes ''set_pole_alpha'' = None"
  by (simp add: instance_attributes_def)

lemma no_set_pole_alpha: "map_of (PlaneLayer_dict p) ''set_pole_alpha'' = None"
  by (simp add: PlaneLayer_dict_def)

lemma find_no_set_pole_alpha: "find_method p c ''set_pole_alpha'' = None"
  by (cases c) (simp_all add: find_method_def class_dict_def base_def no_set_pole_alpha)

lemma get_pole_alpha_not_attr: "map_of instance_attributes ''get_pole_alpha'' = None"
  by (simp add: instance_attributes_def)

lemma find_get_pole_alpha: "find_method p c ''get_pole_alpha'' = Some (getter get_pole_alpha)"
  by (cases c) (simp_all add: find_method_def class_dict_def base_def PlaneLayer_dict_def)

lemma no_setter_pole_alpha: "map_of setters ''pole_alpha'' = None"
  by (simp add: setters_def)

text \<open>
  C3. The claim gives every attribute but the store, the view and the kind a paired
  setter, the pole alpha among them. The module defines \<^verbatim>\<open>get_pole_alpha\<close> and no
  \<^verbatim>\<open>set_pole_alpha\<close>: on a layer of any class, \<^verbatim>\<open>set_pole_alpha(0.5)\<close> raises
  \<^verbatim>\<open>AttributeError\<close>, while \<^verbatim>\<open>get_pole_alpha()\<close> returns the stored value; no
  setter assigns \<^verbatim>\<open>pole_alpha\<close>. On a constructed layer it is 1.0 after any
  sequence of calls of the module's methods (a second \<^verbatim>\<open>__init__\<close> among them);
  on a layer in any state no sequence of calls other than \<^verbatim>\<open>__init__\<close> changes
  it.
\<close>

theorem set_pole_alpha_missing:
  "call p l ''set_pole_alpha'' [PyFloat 0.5] = Some (Inl AttributeError) \<and>
   call p l ''get_pole_alpha'' [] = Some (Inr (Value (pole_alpha l), l)) \<and>
   map_of setters ''pole_alpha'' = None \<and>
   map_option pole_alpha (after_calls p (init c treestore treeview) (module_calls calls)) =
     Some (PyFloat 1.0) \<and>
   map_option pole_alpha (after_calls p l (plain_calls calls)) = Some (pole_alpha l)"
  using after_plain_calls [of p l calls]
    after_module_calls [of "init c treestore treeview" p calls]
  by (auto simp: init_facts call_def in_model_def set_pole_alpha_not_attr find_no_set_pole_alpha get_pole_alpha_not_attr
        find_get_pole_alpha getter_def get_pole_alpha_def no_setter_pole_alpha)

section \<open>Construction\<close>

text \<open>
  C4. A layer of any of the four classes, right after construction, has the shared
  defaults of \<^verbatim>\<open>PlaneLayer.__init__\<close> in every attribute other than \<^verbatim>\<open>type\<close> and
  \<^verbatim>\<open>label\<close>. The two sizes are stored as the float \<^verbatim>\<open>8.0\<close>, which equals 8 in
  Python. The Hoeppener toggle of a new fault plane layer is the one of a new plane
  layer, \<^verbatim>\<open>False\<close>.
\<close>

theorem fresh_layer_defaults:
  "new c [treestore, treeview] = Inr (init c treestore treeview) \<and>
   get_line_color (init c treestore treeview) = PyStr ''#0000ff'' \<and>
   get_line_width (init c treestore treeview) = PyFloat 1.0 \<and>
   get_line_style (init c treestore treeview) = PyStr ''-'' \<and>
   get_line_alpha (init c treestore treeview) = PyFloat 1.0 \<and>
   get_capstyle (init c treestore treeview) = PyStr ''butt'' \<and>
   get_render_gcircles (init c treestore treeview) = PyBool True \<and>
   get_render_poles (init c treestore treeview) = PyBool False \<and>
   get_pole_style (init c treestore treeview) = PyStr ''o'' \<and>
   get_pole_size (init c treestore treeview) = PyFloat 8.0 \<and>
   py_eq (get_pole_size (init c treestore treeview)) (PyInt 8) \<and>
   get_pole_fill (init c treestore treeview) = PyStr ''#ff7e00'' \<and>
   get_pole_edge_color (init c treestore treeview) = PyStr ''#000000'' \<and>
   get_pole_edge_width (init c treestore treeview) = PyFloat 1.0 \<and>
   get_pole_alpha (init c treestore treeview) = PyFloat 1.0 \<and>
   get_render_linears (init c treestore treeview) = PyBool True \<and>
   get_marker_style (init c treestore treeview) = PyStr ''o'' \<and>
   get_marker_size (init c treestore treeview) = PyFloat 8.0 \<and>
   py_eq (get_marker_size (init c treestore treeview)) (PyInt 8) \<and>
   get_marker_fill (init c treestore treeview) = PyStr ''#1283eb'' \<and>
   get_marker_edge_color (init c treestore treeview) = PyStr ''#000000'' \<and>
   get_marker_edge_width (init c treestore treeview) = PyFloat 1.0 \<and>
   get_marker_alpha (init c treestore treeview) = PyFloat 1.0 \<and>
   get_rose_spacing (init c treestore treeview) = PyInt 10 \<and>
   get_rose_bottom (init c treestore treeview) = PyInt 0 \<and>
   get_draw_hoeppener (init c treestore treeview) = PyBool False \<and>
   get_draw_lp_plane (init c treestore treeview) = PyBool False \<and>
   get_draw_contour_fills (init c treestore treeview) = PyBool False \<and>
   get_draw_contour_lines (init c treestore treeview) = PyBool False \<and>
   get_draw_contour_labels (init c treestore treeview) = PyBool False \<and>
   get_render_pole_contours (init c treestore treeview) = PyBool False \<and>
   get_render_line_contours (init c treestore treeview) = PyBool True \<and>
   get_colormap (init c treestore treeview) = PyStr ''Blues'' \<and>
   get_contour_resolution (init c treestore treeview) = PyInt 40 \<and>
   get_contour_method (init c treestore treeview) = PyStr ''exponential_kamb'' \<and>
   get_contour_sigma (init c treestore treeview) = PyInt 2 \<and>
   get_contour_line_color (init c treestore treeview) = PyStr ''#000000'' \<and>
   get_contour_line_width (init c treestore treeview) = PyInt 1 \<and>
   get_contour_line_style (init c treestore treeview) = PyStr ''-'' \<and>
   get_contour_label_size (init c treestore treeview) = PyInt 12 \<and>
   get_use_line_color (init c treestore treeview) = PyBool True \<and>
   get_draw_hoeppener (init FaultPlaneLayer treestore treeview) =
     get_draw_hoeppener (init PlaneLayer treestore' treeview')"
  by (cases c) (simp_all add: new_def init_defs getter_defs py_eq_def py_number_def)

lemma type_not_set: "map_of setters ''type'' = None"
  by (simp add: setters_def)

text \<open>
  C5. \<^verbatim>\<open>get_layer_type()\<close> of a new layer is the tag of its class; no setter
  assigns the attribute \<^verbatim>\<open>type\<close>. After any sequence of calls of the module's
  methods on a constructed layer (setters with any argument, a second
  \<^verbatim>\<open>__init__\<close> with any arguments) \<^verbatim>\<open>get_layer_type()\<close> returns what it
  returned after construction; and on a layer in any state it returns what it
  returned before, after any sequence of calls other than \<^verbatim>\<open>__init__\<close>.
\<close>

theorem kind_fixed:
  "get_layer_type (init PlaneLayer treestore treeview) = PyStr ''plane'' \<and>
   get_layer_type (init FaultPlaneLayer treestore treeview) = PyStr ''faultplane'' \<and>
   get_layer_type (init LineLayer treestore treeview) = PyStr ''line'' \<and>
   get_layer_type (init SmallCircleLayer treestore treeview) = PyStr ''smallcircle'' \<and>
   map_of setters ''type'' = None \<and>
   map_option get_layer_type (after_calls p (init c treestore treeview) (module_calls calls)) =
     Some (get_layer_type (init c treestore treeview)) \<and>
   map_option get_layer_type (after_calls p l (plain_calls calls)) = Some (get_layer_type l)"
proof -
  have tags:
    "get_layer_type (init PlaneLayer treestore treeview) = PyStr ''plane''"
    "get_layer_type (init FaultPlaneLayer treestore treeview) = PyStr ''faultplane''"
    "get_layer_type (init LineLayer treestore treeview) = PyStr ''line''"
    "get_layer_type (init SmallCircleLayer treestore treeview) = PyStr ''smallcircle''"
    by (simp_all add: init_defs get_layer_type_def)
  have constructed:
    "map_option get_layer_type
       (after_calls p (init c treestore treeview) (module_calls calls)) =
     Some (get_layer_type (init c treestore treeview))"
    using after_module_calls [of "init c treestore treeview" p calls]
    by (auto simp: init_facts get_layer_type_def)
  have any_state:
    "map_option get_layer_type (after_calls p l (plain_calls calls)) = Some (get_layer_type l)"
    using after_plain_calls [of p l calls] by (auto simp: get_layer_type_def)
  show ?thesis
    using tags type_not_set constructed any_state by simp
qed

text \<open>
  C6. \<^verbatim>\<open>get_label()\<close> of a new layer is the default label of its class.
\<close>

theorem default_labels:
  "get_label (init PlaneLayer treestore treeview) = PyStr ''Plane layer'' \<and>
   get_label (init FaultPlaneLayer treestore treeview) = PyStr ''Faultplane layer'' \<and>
   get_label (init LineLayer treestore treeview) = PyStr ''Linear layer'' \<and>
   get_label (init SmallCircleLayer treestore treeview) = PyStr ''Small circle layer''"
  by (simp add: init_defs get_label_def)

section \<open>The preview colour\<close>

lemmas int16_defs =
  py_int_base16_def strip_sign_def strip_0x_def py_isspace_def digit_value_def
  format_0x_ff_def slice_from_1_def

lemma fill_new: "to_guint32 n = Inr w \<Longrightarrow> fill (Pixbuf_new True 8 16 16) n = Inr (swatch w)"
  by (simp add: fill_def Pixbuf_new_def swatch_def)

lemma pixbuf_0000ff:
  "line_color l = PyStr ''#0000ff'' \<Longrightarrow> PlaneLayer_get_pixbuf l = Inr (swatch 0x0000ffff)"
  by (simp add: PlaneLayer_get_pixbuf_def int16_defs fill_new to_guint32_def)

lemma pixbuf_1283eb:
  "marker_fill l = PyStr ''#1283eb'' \<Longrightarrow> LineLayer_get_pixbuf l = Inr (swatch 0x1283ebff)"
  by (simp add: LineLayer_get_pixbuf_def int16_defs fill_new to_guint32_def)

lemma get_pixbuf_not_attr: "map_of instance_attributes ''get_pixbuf'' = None"
  by (simp add: instance_attributes_def)

lemma find_get_pixbuf:
  "find_method p c ''get_pixbuf'' =
     Some (pixbuf_getter (if c = LineLayer then LineLayer_get_pixbuf else PlaneLayer_get_pixbuf))"
  by (cases c) (simp_all add: find_method_def class_dict_def base_def PlaneLayer_dict_def)

lemma call_get_pixbuf:
  "call p l ''get_pixbuf'' [] =
     Some (case (if cls l = LineLayer then LineLayer_get_pixbuf l else PlaneLayer_get_pixbuf l) of
             Inl e \<Rightarrow> Inl e | Inr b \<Rightarrow> Inr (PixbufValue b, l))"
  by (simp add: call_def in_model_def get_pixbuf_not_attr find_get_pixbuf pixbuf_getter_def split: sum.splits)

lemma pixbuf_other_attribute:
  "PlaneLayer_get_pixbuf (set_marker_fill l x) = PlaneLayer_get_pixbuf l"
  "LineLayer_get_pixbuf (set_line_color l x) = LineLayer_get_pixbuf l"
  by (simp_all add: PlaneLayer_get_pixbuf_def LineLayer_get_pixbuf_def
        set_marker_fill_def set_line_color_def)

text \<open>
  C7. \<^verbatim>\<open>get_pixbuf()\<close> on a new plane layer returns a 16 by 16 pixbuf whose every
  pixel is \<^verbatim>\<open>0x0000ffff\<close>: red 0, green 0, blue 255, alpha 255, the line colour
  \<^verbatim>\<open>#0000ff\<close>. On a new line layer every pixel is \<^verbatim>\<open>0x1283ebff\<close>: red 18,
  green 131, blue 235, alpha 255, the marker fill \<^verbatim>\<open>#1283eb\<close>. Fault plane and
  small circle layers run the method of \<^verbatim>\<open>PlaneLayer\<close>, the line layer its own.
  The method of \<^verbatim>\<open>PlaneLayer\<close> does not depend on the marker fill, the one of
  \<^verbatim>\<open>LineLayer\<close> does not depend on the line colour. The call leaves the layer as
  it was.
\<close>

theorem preview_color:
  "call p (init PlaneLayer s v) ''get_pixbuf'' [] =
     Some (Inr (PixbufValue (swatch 0x0000ffff), init PlaneLayer s v)) \<and>
   pixel_rgba 0x0000ffff = (0, 0, 255, 255) \<and>
   call p (init LineLayer s v) ''get_pixbuf'' [] =
     Some (Inr (PixbufValue (swatch 0x1283ebff), init LineLayer s v)) \<and>
   pixel_rgba 0x1283ebff = (18, 131, 235, 255) \<and>
   call p (init FaultPlaneLayer s v) ''get_pixbuf'' [] =
     Some (Inr (PixbufValue (swatch 0x0000ffff), init FaultPlaneLayer s v)) \<and>
   call p (init SmallCircleLayer s v) ''get_pixbuf'' [] =
     Some (Inr (PixbufValue (swatch 0x0000ffff), init SmallCircleLayer s v)) \<and>
   find_method p PlaneLayer ''get_pixbuf'' = Some (pixbuf_getter PlaneLayer_get_pixbuf) \<and>
   find_method p FaultPlaneLayer ''get_pixbuf'' = Some (pixbuf_getter PlaneLayer_get_pixbuf) \<and>
   find_method p SmallCircleLayer ''get_pixbuf'' = Some (pixbuf_getter PlaneLayer_get_pixbuf) \<and>
   find_method p LineLayer ''get_pixbuf'' = Some (pixbuf_getter LineLayer_get_pixbuf) \<and>
   PlaneLayer_get_pixbuf (set_marker_fill l x) = PlaneLayer_get_pixbuf l \<and>
   LineLayer_get_pixbuf (set_line_color l x) = LineLayer_get_pixbuf l"
  by (simp add: call_get_pixbuf init_facts pixbuf_0000ff pixbuf_1283eb find_get_pixbuf
        pixel_rgba_def pixbuf_other_attribute)

section \<open>The derived colours\<close>

lemma parse_ff7e00:
  "gdk_rgba_parse other ''#ff7e00'' =
     Some \<lparr> red = 1, green = 42 / 85, blue = 0, alpha = 1 \<rparr>"
  by (simp add: gdk_rgba_parse_def pango_color_parse_hex_def digit_value_def widen_def
        rgba_of_pango_def)

lemma to_color_ff7e00:
  "to_color \<lparr> red = 1, green = 42 / 85, blue = 0, alpha = 1 \<rparr> =
     Inr (Color 65535 32382 0)"
  by (simp add: to_color_def py_int_of_float_def Color_new_def)


lemma get_rgba_ff7e00:
  "line_color l = PyStr ''#ff7e00'' \<Longrightarrow>
     get_rgba (gdk_rgba_parse other) l = Inr (Color 65535 32382 0)"
  by (simp add: get_rgba_def rgba_to_color_def parse_def parse_ff7e00 to_color_ff7e00)

lemma get_rgba_not_attr: "map_of instance_attributes ''get_rgba'' = None"
  by (simp add: instance_attributes_def)

lemma find_get_rgba: "find_method p c ''get_rgba'' = Some (color_getter (get_rgba p))"
  by (cases c) (simp_all add: find_method_def class_dict_def base_def PlaneLayer_dict_def)

lemma call_get_rgba:
  "call p l ''get_rgba'' [] =
     Some (case get_rgba p l of Inl e \<Rightarrow> Inl e | Inr c \<Rightarrow> Inr (ColorValue c, l))"
  by (simp add: call_def in_model_def get_rgba_not_attr find_get_rgba color_getter_def split: sum.splits)

text \<open>
  C8. On a layer whose line colour is the string \<^verbatim>\<open>#ff7e00\<close>, whatever its class
  and its other attributes, \<^verbatim>\<open>get_rgba()\<close> returns the \<^verbatim>\<open>Gdk.Color\<close> with the
  16-bit channels 65535, 32382, 0, which read as the bytes 255, 126, 0. The result
  has three channels and no alpha, it is determined by the stored string, and the
  layer is unchanged by the call. This holds for every choice of the part of the
  toolkit's parser that is not modelled.
\<close>

theorem line_rgba_ff7e00:
  assumes "line_color l = PyStr ''#ff7e00''"
  shows "call (gdk_rgba_parse other) l ''get_rgba'' [] =
           Some (Inr (ColorValue (Color 65535 32382 0), l)) \<and>
         get_rgba (gdk_rgba_parse other) l = Inr (Color 65535 32382 0) \<and>
         color_rgb8 (Color 65535 32382 0) = (255, 126, 0)"
  using assms by (simp add: call_get_rgba get_rgba_ff7e00 color_rgb8_def)

theorem line_rgba_ff7e00_witness:
  "line_color (set_line_color (init SmallCircleLayer (PyObj 1) (PyObj 2)) (PyStr ''#ff7e00'')) =
     PyStr ''#ff7e00'' \<and>
   call (gdk_rgba_parse hex_specs_only)
     (set_line_color (init SmallCircleLayer (PyObj 1) (PyObj 2)) (PyStr ''#ff7e00''))
     ''get_rgba'' [] =
     Some (Inr (ColorValue (Color 65535 32382 0),
       set_line_color (init SmallCircleLayer (PyObj 1) (PyObj 2)) (PyStr ''#ff7e00''))) \<and>
   color_rgb8 (Color 65535 32382 0) = (255, 126, 0)"
proof -
  have h: "line_color (set_line_color (init SmallCircleLayer (PyObj 1) (PyObj 2))
             (PyStr ''#ff7e00'')) = PyStr ''#ff7e00''"
    by (simp add: set_line_color_def)
  show ?thesis
    using h line_rgba_ff7e00 [OF h, of hex_specs_only] by simp
qed









section \<open>Construction without validation\<close>

text \<open>
  C10 as stated fails: \<^verbatim>\<open>PlaneLayer(None, None)\<close> returns a layer, whose store
  and view getters return \<^verbatim>\<open>None\<close>.
\<close>

theorem construction_unchecked_counterexample:
  "new PlaneLayer [PyNone, PyNone] = Inr (PlaneLayer_init PlaneLayer PyNone PyNone) \<and>
   get_data_treestore (PlaneLayer_init PlaneLayer PyNone PyNone) = PyNone \<and>
   get_data_treeview (PlaneLayer_init PlaneLayer PyNone PyNone) = PyNone"
  by (simp add: new_def init_def PlaneLayer_init_def get_data_treestore_def
        get_data_treeview_def)

text \<open>
  C10, amended. Construction of a layer of any class with any two arguments,
  \<^verbatim>\<open>None\<close> among them, succeeds. The arguments are stored as they are: on the
  new layer the store and view getters return them.
\<close>

theorem construction_unchecked:
  "new c [treestore, treeview] = Inr (init c treestore treeview) \<and>
   get_data_treestore (init c treestore treeview) = treestore \<and>
   get_data_treeview (init c treestore treeview) = treeview"
  by (cases c)
     (simp_all add: new_def init_defs get_data_treestore_def get_data_treeview_def)

end
